theory Spec2Isabelle
  imports Main "HOL-Library.Sublist"
begin

section \<open>JavaScript values, strings and exceptions\<close>

text \<open>
  The run-time values the controller handles.  \<open>Message.content\<close> is declared \<open>string\<close>
  in TypeScript, but \<open>data\<close> comes from \<open>res.json()\<close> and is untyped, so at run time
  \<open>data.answer\<close> may be any JSON value or \<open>undefined\<close>.  The payload of a number is
  never inspected by the controller; it is kept as an integer.  An object is the list of its
  own properties.
\<close>

datatype jsval =
    JUndefined
  | JNull
  | JBool bool
  | JNum int
  | JStr string
  | JArr "jsval list"
  | JObj "(string \<times> jsval) list"

text \<open>What a rejected promise or a \<open>throw\<close> carries.\<close>

datatype exn = TypeError | SyntaxError | OtherError string

text \<open>
  \<open>String.prototype.trim\<close> removes white space and line terminators from both ends.
  Strings are modelled over the code points 0 to 255; the white-space code points in that
  range are TAB, LF, VT, FF, CR, SPACE and NO-BREAK SPACE.
\<close>

definition is_ws :: "char \<Rightarrow> bool" where
  "is_ws c = (c \<in> set [CHR 0x09, CHR 0x0A, CHR 0x0B, CHR 0x0C, CHR 0x0D, CHR 0x20, CHR 0xA0])"

definition trim :: "string \<Rightarrow> string" where
  "trim s = rev (dropWhile is_ws (rev (dropWhile is_ws s)))"

section \<open>Data model\<close>

text \<open>\<open>type Message = { role: "user" | "assistant", content: string }\<close>\<close>

datatype role = User | Assistant

record message =
  role :: role
  content :: jsval

text \<open>
  The three \<open>useState\<close> cells of the component: \<open>messages\<close>, \<open>input\<close> (the draft) and
  \<open>loading\<close> (the busy flag), with their initial values.
\<close>

record state =
  messages :: "message list"
  input :: string
  loading :: bool

definition init :: state where
  "init = \<lparr>messages = [], input = [], loading = False\<rparr>"

text \<open>
  The state setters.  \<open>setMessages\<close> is always called with an updater function, which
  React applies to the latest value of the cell.
\<close>

definition setMessages :: "(message list \<Rightarrow> message list) \<Rightarrow> state \<Rightarrow> state" where
  "setMessages f s = s\<lparr>messages := f (messages s)\<rparr>"

definition setInput :: "string \<Rightarrow> state \<Rightarrow> state" where
  "setInput v s = s\<lparr>input := v\<rparr>"

definition setLoading :: "bool \<Rightarrow> state \<Rightarrow> state" where
  "setLoading b s = s\<lparr>loading := b\<rparr>"

section \<open>The outbound call\<close>

text \<open>
  The argument of \<open>fetch\<close>.  \<open>body\<close> is the value handed to \<open>JSON.stringify\<close>.
\<close>

record request =
  url :: string
  http_method :: string
  headers :: "(string \<times> string) list"
  body :: jsval

definition chat_request :: "string \<Rightarrow> request" where
  "chat_request q =
     \<lparr>url = ''http://localhost:8000/chat'',
      http_method = ''POST'',
      headers = [(''Content-Type'', ''application/json'')],
      body = JObj [(''query'', JStr q)]\<rparr>"

text \<open>
  What the backend and the network do to one call: \<open>fetch\<close> rejects, or it resolves with a
  response of some HTTP status whose \<open>json()\<close> promise either rejects (the body is not JSON)
  or resolves with the parsed value.
\<close>

record response =
  status :: nat
  json :: "exn + jsval"

datatype fetch_outcome = FetchRejects exn | FetchResolves response

text \<open>
  The property read \<open>data.answer\<close>: a \<open>TypeError\<close> on \<open>null\<close> and \<open>undefined\<close>, the own
  property of an object when it has one, and \<open>undefined\<close> in every other case.
\<close>

fun get_answer :: "jsval \<Rightarrow> exn + jsval" where
  "get_answer JUndefined = Inl TypeError"
| "get_answer JNull = Inl TypeError"
| "get_answer (JObj props) =
     (case map_of props ''answer'' of None \<Rightarrow> Inr JUndefined | Some v \<Rightarrow> Inr v)"
| "get_answer _ = Inr JUndefined"

text \<open>
  \<open>await fetch(...)\<close>, \<open>await res.json()\<close> and \<open>data.answer\<close> in sequence: the first of
  them that throws decides.  No state cell is read or written between the two awaits.
\<close>

definition await_answer :: "fetch_outcome \<Rightarrow> exn + jsval" where
  "await_answer out =
     (case out of
        FetchRejects e \<Rightarrow> Inl e
      | FetchResolves res \<Rightarrow>
          (case json res of
             Inl e \<Rightarrow> Inl e
           | Inr data \<Rightarrow> get_answer data))"

section \<open>The controller of \<open>App.tsx\<close>\<close>

text \<open>
  \<open>sendMessage\<close> is an async function.  Its synchronous part runs up to the first
  \<open>await\<close>: it either returns at the guard, or leaves the function suspended on one
  \<open>fetch\<close> call.  \<open>inp\<close> is the value of \<open>input\<close> the closure was rendered with.
\<close>

datatype suspension = Returned | Awaiting request

definition App_sendMessage :: "string \<Rightarrow> state \<Rightarrow> suspension \<times> state" where
  "App_sendMessage inp s =
     (if trim inp = [] then (Returned, s)
      else
        let userMessage = \<lparr>role = User, content = JStr inp\<rparr>;
            s1 = setMessages (\<lambda>prev. prev @ [userMessage]) s;
            s2 = setInput [] s1;
            s3 = setLoading True s2
        in (Awaiting (chat_request inp), s3))"

text \<open>
  The rest of \<open>sendMessage\<close>, run when the call settles: the \<open>try\<close> block, the \<open>catch\<close>
  block and \<open>finally\<close>.  The result says how the promise of \<open>sendMessage\<close> itself settles.
\<close>

datatype completion = Fulfilled | RejectedWith exn

definition error_message :: message where
  "error_message = \<lparr>role = Assistant, content = JStr ''Error: Could not get response.''\<rparr>"

definition App_sendMessage_resume :: "fetch_outcome \<Rightarrow> state \<Rightarrow> completion \<times> state" where
  "App_sendMessage_resume out s =
     (let s1 = (case await_answer out of
                  Inr answer \<Rightarrow>
                    (let assistantMessage = \<lparr>role = Assistant, content = answer\<rparr>
                     in setMessages (\<lambda>prev. prev @ [assistantMessage]) s)
                | Inl err \<Rightarrow> setMessages (\<lambda>prev. prev @ [error_message]) s);
          s2 = setLoading False s1
      in (Fulfilled, s2))"

text \<open>One whole submission: the synchronous part, then the call settling as \<open>out\<close>.\<close>

definition App_submit :: "string \<Rightarrow> fetch_outcome \<Rightarrow> state \<Rightarrow> completion \<times> state" where
  "App_submit inp out s =
     (case App_sendMessage inp s of
        (Returned, s') \<Rightarrow> (Fulfilled, s')
      | (Awaiting rq, s') \<Rightarrow> App_sendMessage_resume out s')"

section \<open>The controller of the \<open>Chat\<close> component\<close>

text \<open>
  The \<open>Chat\<close> component of \<open>ChatInput.tsx\<close> has the same synchronous part, and no
  \<open>try\<close>: an exception leaves \<open>sendMessage\<close> at once, with its promise rejected.
\<close>

definition Chat_sendMessage :: "string \<Rightarrow> state \<Rightarrow> suspension \<times> state" where
  "Chat_sendMessage inp s =
     (if trim inp = [] then (Returned, s)
      else
        let userMessage = \<lparr>role = User, content = JStr inp\<rparr>;
            s1 = setMessages (\<lambda>prev. prev @ [userMessage]) s;
            s2 = setInput [] s1;
            s3 = setLoading True s2
        in (Awaiting (chat_request inp), s3))"

definition Chat_sendMessage_resume :: "fetch_outcome \<Rightarrow> state \<Rightarrow> completion \<times> state" where
  "Chat_sendMessage_resume out s =
     (case await_answer out of
        Inl err \<Rightarrow> (RejectedWith err, s)
      | Inr answer \<Rightarrow>
          (let s1 = setMessages (\<lambda>prev. prev @ [\<lparr>role = Assistant, content = answer\<rparr>]) s;
               s2 = setLoading False s1
           in (Fulfilled, s2)))"

definition Chat_submit :: "string \<Rightarrow> fetch_outcome \<Rightarrow> state \<Rightarrow> completion \<times> state" where
  "Chat_submit inp out s =
     (case Chat_sendMessage inp s of
        (Returned, s') \<Rightarrow> (Fulfilled, s')
      | (Awaiting rq, s') \<Rightarrow> Chat_sendMessage_resume out s')"

section \<open>The session as an event system\<close>

text \<open>
  A session is the state of the \<open>App\<close> component together with the calls that are
  outstanding.  Three things happen to it: the user edits the draft (\<open>onChange\<close>), the form
  is submitted (\<open>onSend\<close>, which runs \<open>sendMessage\<close> with the draft of the current render),
  and an outstanding call settles (the \<open>i\<close>-th one, with some outcome).
\<close>

record config =
  ui :: state
  inflight :: "request list"

definition init_config :: config where
  "init_config = \<lparr>ui = init, inflight = []\<rparr>"

datatype event = Change string | Send | Settle nat fetch_outcome

fun step :: "event \<Rightarrow> config \<Rightarrow> config" where
  "step (Change v) c = c\<lparr>ui := setInput v (ui c)\<rparr>"
| "step Send c =
     (case App_sendMessage (input (ui c)) (ui c) of
        (Returned, s') \<Rightarrow> c\<lparr>ui := s'\<rparr>
      | (Awaiting rq, s') \<Rightarrow> \<lparr>ui = s', inflight = inflight c @ [rq]\<rparr>)"
| "step (Settle i out) c =
     (if i < length (inflight c)
      then \<lparr>ui = snd (App_sendMessage_resume out (ui c)),
            inflight = take i (inflight c) @ drop (Suc i) (inflight c)\<rparr>
      else c)"

fun run :: "event list \<Rightarrow> config \<Rightarrow> config" where
  "run [] c = c"
| "run (e # es) c = run es (step e c)"

text \<open>
  \<open>ChatInput\<close> is rendered with \<open>disabled={loading}\<close> on its input field and its submit
  button, so the page offers no edit and no submission while \<open>loading\<close> holds; a call can
  settle only while it is outstanding.
\<close>

fun enabled :: "event \<Rightarrow> config \<Rightarrow> bool" where
  "enabled (Change v) c = (\<not> loading (ui c))"
| "enabled Send c = (\<not> loading (ui c))"
| "enabled (Settle i out) c = (i < length (inflight c))"

fun admissible :: "event list \<Rightarrow> config \<Rightarrow> bool" where
  "admissible [] c = True"
| "admissible (e # es) c = (enabled e c \<and> admissible es (step e c))"

text \<open>
  The invariant of the sessions the page allows: the busy flag is set exactly when a call
  is outstanding, and at most one call is.
\<close>

definition single_flight :: "config \<Rightarrow> bool" where
  "single_flight c = (loading (ui c) = (inflight c \<noteq> []) \<and> length (inflight c) \<le> 1)"

section \<open>Auxiliary facts\<close>

lemma trim_empty_iff: "trim s = [] \<longleftrightarrow> (\<forall>c \<in> set s. is_ws c)"
proof
  assume "trim s = []"
  then have all: "\<forall>c \<in> set (dropWhile is_ws s). is_ws c"
    by (simp add: trim_def dropWhile_eq_Nil_conv)
  have "dropWhile is_ws s = []"
  proof (rule ccontr)
    assume ne: "dropWhile is_ws s \<noteq> []"
    then have "\<not> is_ws (hd (dropWhile is_ws s))" by (rule hd_dropWhile)
    moreover from ne have "hd (dropWhile is_ws s) \<in> set (dropWhile is_ws s)" by simp
    ultimately show False using all by blast
  qed
  then show "\<forall>c \<in> set s. is_ws c" by (simp add: dropWhile_eq_Nil_conv)
next
  assume "\<forall>c \<in> set s. is_ws c"
  then have "dropWhile is_ws s = []" by (simp add: dropWhile_eq_Nil_conv)
  then show "trim s = []" unfolding trim_def by (simp only: rev.simps dropWhile.simps)
qed

lemma App_sendMessage_accept:
  "trim inp \<noteq> [] \<Longrightarrow>
   App_sendMessage inp s =
     (Awaiting (chat_request inp),
      s\<lparr>messages := messages s @ [\<lparr>role = User, content = JStr inp\<rparr>],
        input := [], loading := True\<rparr>)"
  by (simp add: App_sendMessage_def setMessages_def setInput_def setLoading_def)

lemma App_sendMessage_reject: "trim inp = [] \<Longrightarrow> App_sendMessage inp s = (Returned, s)"
  by (simp add: App_sendMessage_def)

lemma trim_X: "trim ''X'' = ''X''"
  by (simp add: trim_def is_ws_def)

lemma resume_fail:
  "await_answer out = Inl err \<Longrightarrow>
   App_sendMessage_resume out s =
     (Fulfilled, s\<lparr>messages := messages s @ [error_message], loading := False\<rparr>)"
  by (simp add: App_sendMessage_resume_def setMessages_def setLoading_def)

lemma resume_ok:
  "await_answer out = Inr v \<Longrightarrow>
   App_sendMessage_resume out s =
     (Fulfilled, s\<lparr>messages := messages s @ [\<lparr>role = Assistant, content = v\<rparr>], loading := False\<rparr>)"
  by (simp add: App_sendMessage_resume_def setMessages_def setLoading_def)

lemma resume_cases:
  "\<exists>m. App_sendMessage_resume out s =
     (Fulfilled, s\<lparr>messages := messages s @ [m], loading := False\<rparr>)"
  by (cases "await_answer out") (auto simp: resume_fail resume_ok)

lemma trim_Hello: "trim ''Hello'' = ''Hello''"
  by (simp add: trim_def is_ws_def)

lemma trim_padded: "trim ''  X  '' = ''X''"
  by (simp add: trim_def is_ws_def)

lemma App_submit_fail:
  "trim text \<noteq> [] \<Longrightarrow> await_answer out = Inl err \<Longrightarrow>
   App_submit text out s =
     (Fulfilled,
      s\<lparr>messages := messages s @ [\<lparr>role = User, content = JStr text\<rparr>, error_message],
        input := [], loading := False\<rparr>)"
  by (simp add: App_submit_def App_sendMessage_accept resume_fail)

lemma App_submit_ok:
  "trim text \<noteq> [] \<Longrightarrow> await_answer out = Inr v \<Longrightarrow>
   App_submit text out s =
     (Fulfilled,
      s\<lparr>messages := messages s @ [\<lparr>role = User, content = JStr text\<rparr>,
                                    \<lparr>role = Assistant, content = v\<rparr>],
        input := [], loading := False\<rparr>)"
  by (simp add: App_submit_def App_sendMessage_accept resume_ok)

lemma resume_loading: "\<not> loading (snd (App_sendMessage_resume out s))"
  using resume_cases [of out s] by auto

lemma resume_messages:
  "\<exists>m. messages (snd (App_sendMessage_resume out s)) = messages s @ [m]"
  using resume_cases [of out s] by auto

lemma single_flight_init: "single_flight init_config"
  by (simp add: single_flight_def init_config_def init_def)

lemma single_flight_step:
  assumes "single_flight c" and "enabled e c"
  shows "single_flight (step e c)"
proof (cases e)
  case (Change v)
  with assms show ?thesis by (simp add: single_flight_def setInput_def)
next
  case Send
  from assms Send have idle: "\<not> loading (ui c)" "inflight c = []"
    by (simp_all add: single_flight_def)
  show ?thesis
  proof (cases "trim (input (ui c)) = []")
    case True
    with Send idle show ?thesis
      by (simp add: single_flight_def App_sendMessage_reject)
  next
    case False
    with Send idle show ?thesis
      by (simp add: single_flight_def App_sendMessage_accept)
  qed
next
  case (Settle i out)
  from assms Settle have "i < length (inflight c)" "length (inflight c) \<le> 1"
    by (simp_all add: single_flight_def)
  then have "i = 0" "length (inflight c) = 1" by simp_all
  with Settle show ?thesis
    by (simp add: single_flight_def resume_loading)
qed

lemma single_flight_run:
  "single_flight c \<Longrightarrow> admissible evs c \<Longrightarrow> single_flight (run evs c)"
  by (induction evs arbitrary: c) (simp_all add: single_flight_step)

lemma step_prefix: "prefix (messages (ui c)) (messages (ui (step e c)))"
proof (cases e)
  case (Change v)
  then show ?thesis by (simp add: setInput_def)
next
  case Send
  show ?thesis
  proof (cases "trim (input (ui c)) = []")
    case True
    with Send show ?thesis by (simp add: App_sendMessage_reject)
  next
    case False
    with Send show ?thesis by (simp add: App_sendMessage_accept)
  qed
next
  case (Settle i out)
  obtain m where "messages (snd (App_sendMessage_resume out (ui c))) = messages (ui c) @ [m]"
    using resume_messages by blast
  with Settle show ?thesis by simp
qed

lemma run_prefix: "prefix (messages (ui c)) (messages (ui (run evs c)))"
proof (induction evs arbitrary: c)
  case Nil
  show ?case by simp
next
  case (Cons e evs)
  have "prefix (messages (ui c)) (messages (ui (step e c)))" by (rule step_prefix)
  also have "prefix (messages (ui (step e c))) (messages (ui (run evs (step e c))))"
    by (rule Cons.IH)
  finally show ?case by simp
qed

lemma Chat_sendMessage_eq: "Chat_sendMessage inp s = App_sendMessage inp s"
  by (simp add: Chat_sendMessage_def App_sendMessage_def)

lemma Chat_submit_agrees:
  "await_answer out = Inr v \<Longrightarrow> Chat_submit inp out s = App_submit inp out s"
  by (cases "trim inp = []")
     (simp_all add: Chat_submit_def App_submit_def Chat_sendMessage_eq App_sendMessage_reject
        App_sendMessage_accept resume_ok Chat_sendMessage_resume_def setMessages_def
        setLoading_def)

section \<open>Claims\<close>

text \<open>
  C1.  When the trimmed text is not empty, the synchronous part of \<open>sendMessage\<close>, which
  ends before the call settles, appends exactly one user message whose content is the text,
  clears the draft, sets the busy flag, and leaves exactly one call outstanding, whose body
  is \<open>{query: text}\<close>.
\<close>

theorem C1_submit_effects:
  assumes "trim text \<noteq> []"
  shows "\<exists>rq s'. App_sendMessage text s = (Awaiting rq, s')
           \<and> messages s' = messages s @ [\<lparr>role = User, content = JStr text\<rparr>]
           \<and> input s' = []
           \<and> loading s' = True
           \<and> body rq = JObj [(''query'', JStr text)]
           \<and> rq = chat_request text
           \<and> (ui c = s \<and> input s = text \<longrightarrow>
                step Send c = \<lparr>ui = s', inflight = inflight c @ [rq]\<rparr>)"
  using assms by (auto simp: App_sendMessage_accept chat_request_def)

theorem C1_witness:
  "trim ''X'' \<noteq> [] \<and>
   App_sendMessage ''X'' \<lparr>messages = [], input = ''X'', loading = False\<rparr> =
     (Awaiting (chat_request ''X''),
      \<lparr>messages = [\<lparr>role = User, content = JStr ''X''\<rparr>], input = [], loading = True\<rparr>)
   \<and> body (chat_request ''X'') = JObj [(''query'', JStr ''X'')]
   \<and> step Send \<lparr>ui = \<lparr>messages = [], input = ''X'', loading = False\<rparr>, inflight = []\<rparr> =
       \<lparr>ui = \<lparr>messages = [\<lparr>role = User, content = JStr ''X''\<rparr>], input = [], loading = True\<rparr>,
        inflight = [chat_request ''X'']\<rparr>"
proof -
  have h: "trim ''X'' \<noteq> []" by (simp add: trim_X)
  from C1_submit_effects [OF h, of "\<lparr>messages = [], input = ''X'', loading = False\<rparr>"
      "\<lparr>ui = \<lparr>messages = [], input = ''X'', loading = False\<rparr>, inflight = []\<rparr>"]
  obtain rq s' where
    a: "App_sendMessage ''X'' \<lparr>messages = [], input = ''X'', loading = False\<rparr> = (Awaiting rq, s')"
    and m: "messages s' = [\<lparr>role = User, content = JStr ''X''\<rparr>]"
    and i: "input s' = []" and l: "loading s' = True"
    and b: "body rq = JObj [(''query'', JStr ''X'')]"
    and r: "rq = chat_request ''X''"
    and st: "step Send \<lparr>ui = \<lparr>messages = [], input = ''X'', loading = False\<rparr>, inflight = []\<rparr>
              = \<lparr>ui = s', inflight = [] @ [rq]\<rparr>"
    by auto
  from m i l have s': "s' = \<lparr>messages = [\<lparr>role = User, content = JStr ''X''\<rparr>], input = [], loading = True\<rparr>"
    by (cases s') simp
  show ?thesis using h a b r st s' by simp
qed

text \<open>
  C2.  When the outbound call fails, that is, when \<open>fetch\<close> rejects, the response is not
  JSON, or anything else in the \<open>try\<close> block throws, \<open>sendMessage\<close> appends exactly one
  assistant message reading \<open>Error: Could not get response.\<close>, clears the busy flag, and
  its own promise is fulfilled: the failure does not reach the caller.  A whole submission
  of a text with a non-empty trim then ends with the user message followed by the error
  message.
\<close>

theorem C2_failure_appends_error:
  assumes "await_answer out = Inl err"
  shows "App_sendMessage_resume out s =
           (Fulfilled,
            s\<lparr>messages := messages s @
                 [\<lparr>role = Assistant, content = JStr ''Error: Could not get response.''\<rparr>],
              loading := False\<rparr>)
         \<and> await_answer (FetchRejects e) = Inl e
         \<and> await_answer (FetchResolves \<lparr>status = st, json = Inl e\<rparr>) = Inl e
         \<and> await_answer (FetchResolves \<lparr>status = st, json = Inr JNull\<rparr>) = Inl TypeError
         \<and> (trim text \<noteq> [] \<longrightarrow>
              App_submit text out s =
                (Fulfilled,
                 s\<lparr>messages := messages s @
                      [\<lparr>role = User, content = JStr text\<rparr>,
                       \<lparr>role = Assistant, content = JStr ''Error: Could not get response.''\<rparr>],
                   input := [], loading := False\<rparr>))"
  using assms
  by (simp add: resume_fail App_submit_fail await_answer_def error_message_def)

theorem C2_witness:
  "await_answer (FetchRejects TypeError) = Inl TypeError \<and> trim ''Hello'' \<noteq> [] \<and>
   App_submit ''Hello'' (FetchRejects TypeError) init =
     (Fulfilled,
      \<lparr>messages = [\<lparr>role = User, content = JStr ''Hello''\<rparr>,
                   \<lparr>role = Assistant, content = JStr ''Error: Could not get response.''\<rparr>],
       input = [], loading = False\<rparr>)"
proof -
  have h: "await_answer (FetchRejects TypeError) = Inl TypeError"
    by (simp add: await_answer_def)
  have t: "trim ''Hello'' \<noteq> []" by (simp add: trim_Hello)
  from C2_failure_appends_error [OF h, of init _ _ "''Hello''"] t
  have "App_submit ''Hello'' (FetchRejects TypeError) init =
          (Fulfilled,
           init\<lparr>messages := messages init @
                [\<lparr>role = User, content = JStr ''Hello''\<rparr>,
                 \<lparr>role = Assistant, content = JStr ''Error: Could not get response.''\<rparr>],
             input := [], loading := False\<rparr>)"
    by blast
  then show ?thesis using h t by (simp add: init_def)
qed

text \<open>
  C3.  A submission of a text with a non-empty trim sets the busy flag; the continuation
  clears it whatever the outcome of the call, on the success path and on the failure path
  alike.  Over every session the page allows (edits and submissions only while the form is
  enabled), the busy flag is set exactly while a call is outstanding.
\<close>

theorem C3_busy_while_outstanding:
  "(trim text \<noteq> [] \<longrightarrow> loading (snd (App_sendMessage text s)))
   \<and> \<not> loading (snd (App_sendMessage_resume out s'))
   \<and> (admissible evs init_config \<longrightarrow>
        loading (ui (run evs init_config)) = (inflight (run evs init_config) \<noteq> [])
        \<and> length (inflight (run evs init_config)) \<le> 1)"
proof -
  have "admissible evs init_config \<Longrightarrow> single_flight (run evs init_config)"
    by (rule single_flight_run [OF single_flight_init])
  then show ?thesis
    by (auto simp: App_sendMessage_accept resume_loading single_flight_def)
qed

theorem C3_witness:
  "trim ''Hello'' \<noteq> []
   \<and> loading (snd (App_sendMessage ''Hello'' init))
   \<and> admissible [Change ''Hello'', Send] init_config
   \<and> inflight (run [Change ''Hello'', Send] init_config) \<noteq> []
   \<and> loading (ui (run [Change ''Hello'', Send] init_config))
   \<and> admissible [Change ''Hello'', Send, Settle 0 (FetchRejects TypeError)] init_config
   \<and> inflight (run [Change ''Hello'', Send, Settle 0 (FetchRejects TypeError)] init_config) = []
   \<and> \<not> loading (ui (run [Change ''Hello'', Send, Settle 0 (FetchRejects TypeError)] init_config))"
proof -
  have t: "trim ''Hello'' \<noteq> []" by (simp add: trim_Hello)
  have r1: "run [Change ''Hello'', Send] init_config =
              \<lparr>ui = \<lparr>messages = [\<lparr>role = User, content = JStr ''Hello''\<rparr>], input = [], loading = True\<rparr>,
               inflight = [chat_request ''Hello'']\<rparr>"
    by (simp add: init_config_def init_def setInput_def App_sendMessage_accept trim_Hello)
  have a1: "admissible [Change ''Hello'', Send] init_config"
    by (simp add: init_config_def init_def setInput_def)
  have a2: "admissible [Change ''Hello'', Send, Settle 0 (FetchRejects TypeError)] init_config"
    by (simp add: init_config_def init_def setInput_def App_sendMessage_accept trim_Hello)
  have n1: "inflight (run [Change ''Hello'', Send] init_config) \<noteq> []"
    unfolding r1 by simp
  have n2: "inflight (run [Change ''Hello'', Send, Settle 0 (FetchRejects TypeError)] init_config) = []"
    by (simp add: init_config_def init_def setInput_def App_sendMessage_accept trim_Hello)
  note thm1 = C3_busy_while_outstanding [of "''Hello''" init _ _ "[Change ''Hello'', Send]"]
  note thm2 = C3_busy_while_outstanding
      [of "''Hello''" init _ _ "[Change ''Hello'', Send, Settle 0 (FetchRejects TypeError)]"]
  from thm1 t have l0: "loading (snd (App_sendMessage ''Hello'' init))" by blast
  from thm1 a1 n1 have l1: "loading (ui (run [Change ''Hello'', Send] init_config))" by blast
  from thm2 a2 n2
  have l2: "\<not> loading (ui (run [Change ''Hello'', Send, Settle 0 (FetchRejects TypeError)] init_config))"
    by blast
  show ?thesis using t l0 a1 n1 l1 a2 n2 l2 by blast
qed

text \<open>
  C4.  When the response resolves with the JSON body \<open>{"answer": a}\<close> (for instance
  \<open>a = "42"\<close>), exactly one assistant message with content \<open>a\<close> is appended, at the end of
  the sequence and so after the user message of the submission.
\<close>

theorem C4_success_appends_answer:
  assumes "trim text \<noteq> []"
  shows "App_submit text (FetchResolves \<lparr>status = st, json = Inr (JObj [(''answer'', JStr a)])\<rparr>) s =
           (Fulfilled,
            s\<lparr>messages := messages s @
                 [\<lparr>role = User, content = JStr text\<rparr>, \<lparr>role = Assistant, content = JStr a\<rparr>],
              input := [], loading := False\<rparr>)
         \<and> App_sendMessage_resume
              (FetchResolves \<lparr>status = st, json = Inr (JObj [(''answer'', JStr a)])\<rparr>) s' =
             (Fulfilled,
              s'\<lparr>messages := messages s' @ [\<lparr>role = Assistant, content = JStr a\<rparr>],
                 loading := False\<rparr>)"
proof -
  have "await_answer (FetchResolves \<lparr>status = st, json = Inr (JObj [(''answer'', JStr a)])\<rparr>)
          = Inr (JStr a)"
    by (simp add: await_answer_def)
  then show ?thesis using assms by (simp add: App_submit_ok resume_ok)
qed

theorem C4_witness:
  "trim ''Hello'' \<noteq> [] \<and>
   App_submit ''Hello'' (FetchResolves \<lparr>status = 200, json = Inr (JObj [(''answer'', JStr ''42'')])\<rparr>) init =
     (Fulfilled,
      \<lparr>messages = [\<lparr>role = User, content = JStr ''Hello''\<rparr>,
                   \<lparr>role = Assistant, content = JStr ''42''\<rparr>],
       input = [], loading = False\<rparr>)"
proof -
  have t: "trim ''Hello'' \<noteq> []" by (simp add: trim_Hello)
  from C4_success_appends_answer [OF t, of 200 "''42''" init]
  show ?thesis using t by (simp add: init_def)
qed

text \<open>
  C5.  When the text is empty or consists of white space only, \<open>sendMessage\<close> returns at
  its guard: messages, draft and busy flag are unchanged and no call is issued.
\<close>

theorem C5_blank_rejected:
  assumes "list_all is_ws text"
  shows "App_sendMessage text s = (Returned, s)
         \<and> step Send \<lparr>ui = s\<lparr>input := text\<rparr>, inflight = rqs\<rparr>
             = \<lparr>ui = s\<lparr>input := text\<rparr>, inflight = rqs\<rparr>"
proof -
  from assms have "trim text = []" by (simp add: trim_empty_iff list_all_iff)
  then show ?thesis by (simp add: App_sendMessage_reject)
qed

theorem C5_witness:
  "list_all is_ws [CHR '' '', CHR 0x09, CHR '' ''] \<and> list_all is_ws [] \<and>
   App_sendMessage [CHR '' '', CHR 0x09, CHR '' '']
      \<lparr>messages = [], input = [CHR '' '', CHR 0x09, CHR '' ''], loading = False\<rparr> =
     (Returned, \<lparr>messages = [], input = [CHR '' '', CHR 0x09, CHR '' ''], loading = False\<rparr>) \<and>
   App_sendMessage [] init = (Returned, init)"
proof -
  have h: "list_all is_ws [CHR '' '', CHR 0x09, CHR '' '']" by (simp add: is_ws_def)
  have e: "list_all is_ws []" by simp
  from C5_blank_rejected [OF h] C5_blank_rejected [OF e] h e
  show ?thesis by blast
qed

text \<open>
  C6.  As stated the claim fails: the status of a response is never read, so a response
  of status 404 whose body is the JSON object \<open>{"detail": "Not Found"}\<close> makes
  \<open>sendMessage\<close> append an assistant message whose content is \<open>undefined\<close>, not the
  error notice.
\<close>

theorem C6_counterexample:
  "App_submit ''Hello''
     (FetchResolves \<lparr>status = 404, json = Inr (JObj [(''detail'', JStr ''Not Found'')])\<rparr>) init =
     (Fulfilled,
      \<lparr>messages = [\<lparr>role = User, content = JStr ''Hello''\<rparr>,
                   \<lparr>role = Assistant, content = JUndefined\<rparr>],
       input = [], loading = False\<rparr>)
   \<and> \<lparr>role = Assistant, content = JUndefined\<rparr> \<noteq> error_message"
proof -
  have "await_answer
          (FetchResolves \<lparr>status = 404, json = Inr (JObj [(''detail'', JStr ''Not Found'')])\<rparr>)
        = Inr JUndefined"
    by (simp add: await_answer_def)
  then show ?thesis
    by (simp add: App_submit_ok trim_Hello init_def error_message_def)
qed

text \<open>
  C6, amended.  A rejected \<open>fetch\<close> and a body that is not JSON both end in the fixed
  assistant-role error message.  The HTTP status has no influence: a response is handled
  as the same response with any other status, and whenever \<open>data.answer\<close> can be read
  from its parsed body the appended assistant message carries that value (\<open>undefined\<close>
  when the body has no such property), whatever the status.
\<close>

theorem C6_failures_collapse_status_ignored:
  "App_sendMessage_resume (FetchRejects e) s =
     (Fulfilled,
      s\<lparr>messages := messages s @
           [\<lparr>role = Assistant, content = JStr ''Error: Could not get response.''\<rparr>],
        loading := False\<rparr>)
   \<and> App_sendMessage_resume (FetchResolves \<lparr>status = st, json = Inl e\<rparr>) s =
     (Fulfilled,
      s\<lparr>messages := messages s @
           [\<lparr>role = Assistant, content = JStr ''Error: Could not get response.''\<rparr>],
        loading := False\<rparr>)
   \<and> App_sendMessage_resume (FetchResolves (res\<lparr>status := st\<rparr>)) s =
       App_sendMessage_resume (FetchResolves res) s
   \<and> (get_answer d = Inr v \<longrightarrow>
        App_sendMessage_resume (FetchResolves \<lparr>status = st, json = Inr d\<rparr>) s =
          (Fulfilled,
           s\<lparr>messages := messages s @ [\<lparr>role = Assistant, content = v\<rparr>],
             loading := False\<rparr>))"
proof -
  have a: "await_answer (FetchRejects e) = Inl e"
    by (simp add: await_answer_def)
  have b: "await_answer (FetchResolves \<lparr>status = st, json = Inl e\<rparr>) = Inl e"
    by (simp add: await_answer_def)
  have c: "await_answer (FetchResolves (res\<lparr>status := st\<rparr>)) = await_answer (FetchResolves res)"
    by (simp add: await_answer_def)
  have d: "get_answer d = Inr v \<Longrightarrow>
           await_answer (FetchResolves \<lparr>status = st, json = Inr d\<rparr>) = Inr v"
    by (simp add: await_answer_def)
  have c': "App_sendMessage_resume (FetchResolves (res\<lparr>status := st\<rparr>)) s =
            App_sendMessage_resume (FetchResolves res) s"
    by (simp add: App_sendMessage_resume_def c)
  show ?thesis
    using resume_fail [OF a, of s] resume_fail [OF b, of s] c' d
    by (auto simp: error_message_def resume_ok)
qed

theorem C6_witness:
  "get_answer (JObj [(''detail'', JStr ''Not Found'')]) = Inr JUndefined
   \<and> App_sendMessage_resume
        (FetchResolves \<lparr>status = 404, json = Inr (JObj [(''detail'', JStr ''Not Found'')])\<rparr>) init =
       (Fulfilled, \<lparr>messages = [\<lparr>role = Assistant, content = JUndefined\<rparr>], input = [], loading = False\<rparr>)
   \<and> App_sendMessage_resume (FetchRejects TypeError) init =
       (Fulfilled,
        \<lparr>messages = [\<lparr>role = Assistant, content = JStr ''Error: Could not get response.''\<rparr>],
         input = [], loading = False\<rparr>)
   \<and> App_sendMessage_resume (FetchResolves \<lparr>status = 500, json = Inl SyntaxError\<rparr>) init =
       (Fulfilled,
        \<lparr>messages = [\<lparr>role = Assistant, content = JStr ''Error: Could not get response.''\<rparr>],
         input = [], loading = False\<rparr>)"
proof -
  have g: "get_answer (JObj [(''detail'', JStr ''Not Found'')]) = Inr JUndefined" by simp
  note inst = C6_failures_collapse_status_ignored
      [of TypeError init _ _ "JObj [(''detail'', JStr ''Not Found'')]" JUndefined]
  from inst [of 404] g
  have 1: "App_sendMessage_resume
        (FetchResolves \<lparr>status = 404, json = Inr (JObj [(''detail'', JStr ''Not Found'')])\<rparr>) init =
       (Fulfilled, init\<lparr>messages := messages init @ [\<lparr>role = Assistant, content = JUndefined\<rparr>],
                     loading := False\<rparr>)"
    by blast
  from inst have 2: "App_sendMessage_resume (FetchRejects TypeError) init =
       (Fulfilled,
        init\<lparr>messages := messages init @
           [\<lparr>role = Assistant, content = JStr ''Error: Could not get response.''\<rparr>],
          loading := False\<rparr>)"
    by blast
  from C6_failures_collapse_status_ignored [of SyntaxError init 500]
  have 3: "App_sendMessage_resume (FetchResolves \<lparr>status = 500, json = Inl SyntaxError\<rparr>) init =
       (Fulfilled,
        init\<lparr>messages := messages init @
           [\<lparr>role = Assistant, content = JStr ''Error: Could not get response.''\<rparr>],
          loading := False\<rparr>)"
    by blast
  show ?thesis using g 1 2 3 by (simp add: init_def)
qed

text \<open>
  C7.  The message sequence is append-only: the synchronous part of a submission, the
  continuation on either path, every single event and every sequence of events leave the
  earlier sequence as a prefix of the later one.
\<close>

theorem C7_append_only:
  "prefix (messages s) (messages (snd (App_sendMessage text s)))
   \<and> prefix (messages s) (messages (snd (App_sendMessage_resume out s)))
   \<and> prefix (messages (ui c)) (messages (ui (step e c)))
   \<and> prefix (messages (ui c)) (messages (ui (run evs c)))"
proof -
  have "prefix (messages s) (messages (snd (App_sendMessage text s)))"
    by (cases "trim text = []") (simp_all add: App_sendMessage_reject App_sendMessage_accept)
  moreover have "prefix (messages s) (messages (snd (App_sendMessage_resume out s)))"
    using resume_messages [of out s] by auto
  ultimately show ?thesis by (simp add: step_prefix run_prefix)
qed

theorem C7_witness:
  "prefix [\<lparr>role = User, content = JStr ''Hello''\<rparr>]
     (messages (ui (run [Settle 0 (FetchRejects TypeError), Change ''Hi'', Send]
        \<lparr>ui = \<lparr>messages = [\<lparr>role = User, content = JStr ''Hello''\<rparr>], input = [], loading = True\<rparr>,
         inflight = [chat_request ''Hello'']\<rparr>)))"
  using C7_append_only [of _ _ _
      "\<lparr>ui = \<lparr>messages = [\<lparr>role = User, content = JStr ''Hello''\<rparr>], input = [], loading = True\<rparr>,
        inflight = [chat_request ''Hello'']\<rparr>"
      _ "[Settle 0 (FetchRejects TypeError), Change ''Hi'', Send]"]
  by simp

text \<open>
  C8.  A failed request is not fatal.  Its continuation is fulfilled, appends exactly one
  error message, clears the busy flag, leaves the draft alone and leaves no call
  outstanding (nothing is retried); the form is enabled again, and the next submission of
  a text with a non-empty trim has the usual effects.
\<close>

theorem C8_failure_not_fatal:
  assumes "await_answer out = Inl err" and "trim text \<noteq> []"
  shows "\<exists>s1. App_sendMessage_resume out s = (Fulfilled, s1)
           \<and> loading s1 = False
           \<and> messages s1 = messages s @
                [\<lparr>role = Assistant, content = JStr ''Error: Could not get response.''\<rparr>]
           \<and> input s1 = input s
           \<and> step (Settle 0 out) \<lparr>ui = s, inflight = [rq]\<rparr> = \<lparr>ui = s1, inflight = []\<rparr>
           \<and> enabled Send \<lparr>ui = s1, inflight = []\<rparr>
           \<and> App_sendMessage text s1 =
               (Awaiting (chat_request text),
                s1\<lparr>messages := messages s1 @ [\<lparr>role = User, content = JStr text\<rparr>],
                   input := [], loading := True\<rparr>)"
  using assms
  by (simp add: resume_fail App_sendMessage_accept error_message_def)

theorem C8_witness:
  "await_answer (FetchRejects TypeError) = Inl TypeError \<and> trim ''X'' \<noteq> []
   \<and> (\<exists>s1. App_sendMessage_resume (FetchRejects TypeError)
              \<lparr>messages = [\<lparr>role = User, content = JStr ''Hello''\<rparr>], input = [], loading = True\<rparr>
            = (Fulfilled, s1)
          \<and> loading s1 = False
          \<and> messages s1 = [\<lparr>role = User, content = JStr ''Hello''\<rparr>,
                            \<lparr>role = Assistant, content = JStr ''Error: Could not get response.''\<rparr>]
          \<and> step (Settle 0 (FetchRejects TypeError))
               \<lparr>ui = \<lparr>messages = [\<lparr>role = User, content = JStr ''Hello''\<rparr>], input = [], loading = True\<rparr>,
                inflight = [chat_request ''Hello'']\<rparr> = \<lparr>ui = s1, inflight = []\<rparr>
          \<and> App_sendMessage ''X'' s1 =
               (Awaiting (chat_request ''X''),
                \<lparr>messages = [\<lparr>role = User, content = JStr ''Hello''\<rparr>,
                             \<lparr>role = Assistant, content = JStr ''Error: Could not get response.''\<rparr>,
                             \<lparr>role = User, content = JStr ''X''\<rparr>],
                 input = [], loading = True\<rparr>))"
proof -
  have h: "await_answer (FetchRejects TypeError) = Inl TypeError"
    by (simp add: await_answer_def)
  have t: "trim ''X'' \<noteq> []" by (simp add: trim_X)
  from C8_failure_not_fatal [OF h t,
      of "\<lparr>messages = [\<lparr>role = User, content = JStr ''Hello''\<rparr>], input = [], loading = True\<rparr>"
         "chat_request ''Hello''"]
  obtain s1 where
    a: "App_sendMessage_resume (FetchRejects TypeError)
              \<lparr>messages = [\<lparr>role = User, content = JStr ''Hello''\<rparr>], input = [], loading = True\<rparr>
            = (Fulfilled, s1)"
    and l: "loading s1 = False"
    and m: "messages s1 = [\<lparr>role = User, content = JStr ''Hello''\<rparr>,
                            \<lparr>role = Assistant, content = JStr ''Error: Could not get response.''\<rparr>]"
    and i: "input s1 = []"
    and st: "step (Settle 0 (FetchRejects TypeError))
               \<lparr>ui = \<lparr>messages = [\<lparr>role = User, content = JStr ''Hello''\<rparr>], input = [], loading = True\<rparr>,
                inflight = [chat_request ''Hello'']\<rparr> = \<lparr>ui = s1, inflight = []\<rparr>"
    and n: "App_sendMessage ''X'' s1 =
               (Awaiting (chat_request ''X''),
                s1\<lparr>messages := messages s1 @ [\<lparr>role = User, content = JStr ''X''\<rparr>],
                   input := [], loading := True\<rparr>)"
    by auto
  from n m have n': "App_sendMessage ''X'' s1 =
               (Awaiting (chat_request ''X''),
                \<lparr>messages = [\<lparr>role = User, content = JStr ''Hello''\<rparr>,
                             \<lparr>role = Assistant, content = JStr ''Error: Could not get response.''\<rparr>,
                             \<lparr>role = User, content = JStr ''X''\<rparr>],
                 input = [], loading = True\<rparr>)"
    by (cases s1) simp
  show ?thesis using h t a l m st n' by blast
qed

text \<open>
  C9.  Trimming is used for the emptiness check only.  The user message and the \<open>query\<close>
  field of the request carry the text as it was typed, although the draft is already
  cleared; when the text has leading or trailing white space, both differ from its trimmed
  form.
\<close>

theorem C9_raw_text_sent:
  assumes "trim text \<noteq> []"
  shows "\<exists>rq s'. App_sendMessage text s = (Awaiting rq, s')
           \<and> last (messages s') = \<lparr>role = User, content = JStr text\<rparr>
           \<and> body rq = JObj [(''query'', JStr text)]
           \<and> input s' = []
           \<and> (trim text \<noteq> text \<longrightarrow>
                content (last (messages s')) \<noteq> JStr (trim text)
                \<and> body rq \<noteq> JObj [(''query'', JStr (trim text))])"
  using assms by (simp add: App_sendMessage_accept chat_request_def)

theorem C9_witness:
  "trim ''  X  '' \<noteq> [] \<and> trim ''  X  '' \<noteq> ''  X  ''
   \<and> (\<exists>rq s'. App_sendMessage ''  X  '' init = (Awaiting rq, s')
          \<and> last (messages s') = \<lparr>role = User, content = JStr ''  X  ''\<rparr>
          \<and> body rq = JObj [(''query'', JStr ''  X  '')]
          \<and> input s' = []
          \<and> content (last (messages s')) \<noteq> JStr (trim ''  X  '')
          \<and> body rq \<noteq> JObj [(''query'', JStr (trim ''  X  ''))])"
proof -
  have t: "trim ''  X  '' \<noteq> []" by (simp add: trim_padded)
  have u: "trim ''  X  '' \<noteq> ''  X  ''" by (simp add: trim_padded)
  from C9_raw_text_sent [OF t, of init] u t show ?thesis by blast
qed

text \<open>
  C10.  The two controllers agree on the synchronous part and on every outcome from which
  an answer can be read (\<open>Chat_sendMessage_eq\<close>, \<open>Chat_submit_agrees\<close>).  They disagree when
  the call fails: on a rejected \<open>fetch\<close> the \<open>App\<close> component appends the error message and
  clears the busy flag, while the \<open>Chat\<close> component appends nothing, stays busy, and its
  promise is rejected.
\<close>

theorem C10_divergence:
  "App_submit ''Hello'' (FetchRejects TypeError) init =
     (Fulfilled,
      \<lparr>messages = [\<lparr>role = User, content = JStr ''Hello''\<rparr>,
                   \<lparr>role = Assistant, content = JStr ''Error: Could not get response.''\<rparr>],
       input = [], loading = False\<rparr>)
   \<and> Chat_submit ''Hello'' (FetchRejects TypeError) init =
     (RejectedWith TypeError,
      \<lparr>messages = [\<lparr>role = User, content = JStr ''Hello''\<rparr>], input = [], loading = True\<rparr>)"
proof -
  have a: "await_answer (FetchRejects TypeError) = Inl TypeError"
    by (simp add: await_answer_def)
  have "App_submit ''Hello'' (FetchRejects TypeError) init =
     (Fulfilled,
      \<lparr>messages = [\<lparr>role = User, content = JStr ''Hello''\<rparr>,
                   \<lparr>role = Assistant, content = JStr ''Error: Could not get response.''\<rparr>],
       input = [], loading = False\<rparr>)"
    using a by (simp add: App_submit_fail trim_Hello init_def error_message_def)
  moreover have "Chat_submit ''Hello'' (FetchRejects TypeError) init =
     (RejectedWith TypeError,
      \<lparr>messages = [\<lparr>role = User, content = JStr ''Hello''\<rparr>], input = [], loading = True\<rparr>)"
    using a
    by (simp add: Chat_submit_def Chat_sendMessage_eq App_sendMessage_accept trim_Hello
        Chat_sendMessage_resume_def init_def)
  ultimately show ?thesis by simp
qed

end
